theory Spec2Isabelle
  imports
    Complex_Main
    "HOL-Library.Sublist"
    "HOL-Library.Char_ord"
    "HOL-Library.List_Lexorder"
    "HOL-Library.Log_Nat"
begin

text \<open>
  The attribution and summary logic of the car-wash tracker: the split of a price
  between company and washer, the ingestion of a wash job with its per-day counters
  (\<open>createCarWashRecord\<close> of \<open>recordController.js\<close>), and the summaries that are recomputed
  from the stored line items (\<open>recordController.js\<close> and \<open>paymentController.js\<close>).
\<close>

section \<open>Strings\<close>

text \<open>
  JavaScript strings are modelled as \<^typ>\<open>string\<close>. \<open>toLowerCase\<close> maps the ASCII
  capitals to their small letters and leaves every other character alone; the words
  looked for below are plain ASCII, and lower-casing a character outside ASCII neither
  makes nor breaks an occurrence of one of them.
\<close>

definition toLowerChar :: "char \<Rightarrow> char" where
  "toLowerChar c =
     (case map_of (zip ''ABCDEFGHIJKLMNOPQRSTUVWXYZ'' ''abcdefghijklmnopqrstuvwxyz'') c of
        Some l \<Rightarrow> l
      | None \<Rightarrow> c)"

definition toLowerCase :: "string \<Rightarrow> string" where
  "toLowerCase s = map toLowerChar s"

text \<open>\<open>s.includes(k)\<close>: does \<open>k\<close> occur in \<open>s\<close> as a contiguous substring.\<close>

fun includesStr :: "string \<Rightarrow> string \<Rightarrow> bool" where
  "includesStr [] k = (k = [])"
| "includesStr (c # cs) k = (prefix k (c # cs) \<or> includesStr cs k)"

section \<open>Split policy\<close>

text \<open>
  Numbers are modelled as reals and arithmetic is exact, except where a definition says
  that it rounds: the double-precision reading of the split function, with the rounding
  of every operation written out, is a separate function further down.
\<close>

record split =
  companyShare :: real
  washerShare :: real

text \<open>\<open>calculatePaymentSplit\<close> of \<open>recordController.js\<close>.\<close>

definition calculatePaymentSplit :: "string \<Rightarrow> real \<Rightarrow> split" where
  "calculatePaymentSplit serviceItemName price =
     (let specialItems = [''engine'', ''radiator'', ''condenser''];
          isSpecial = list_ex (\<lambda>item. includesStr (toLowerCase serviceItemName) item) specialItems;
          isRug = includesStr (toLowerCase serviceItemName) ''rug''
      in if isSpecial then
           \<lparr>companyShare = (price / 3) * 2, washerShare = price / 3\<rparr>
         else if isRug then
           \<lparr>companyShare = price * 0.5, washerShare = price * 0.5\<rparr>
         else
           \<lparr>companyShare = price * 0.6, washerShare = price * 0.4\<rparr>)"

text \<open>\<open>calculatePaymentSplit\<close> of \<open>paymentController.js\<close>, a second copy of the function.\<close>

definition calculatePaymentSplit_payment :: "string \<Rightarrow> real \<Rightarrow> split" where
  "calculatePaymentSplit_payment serviceItemName price =
     (let specialItems = [''engine'', ''radiator'', ''condenser''];
          isSpecial = list_ex (\<lambda>item. includesStr (toLowerCase serviceItemName) item) specialItems;
          isRug = includesStr (toLowerCase serviceItemName) ''rug''
      in if isSpecial then
           \<lparr>companyShare = (price / 3) * 2, washerShare = price / 3\<rparr>
         else if isRug then
           \<lparr>companyShare = price * 0.5, washerShare = price * 0.5\<rparr>
         else
           \<lparr>companyShare = price * 0.6, washerShare = price * 0.4\<rparr>)"

text \<open>\<open>isSpecialItem\<close> of \<open>recordController.js\<close>.\<close>

definition isSpecialItem :: "string \<Rightarrow> bool" where
  "isSpecialItem serviceItemName =
     (let specialItems = [''engine'', ''radiator'', ''condenser'']
      in list_ex (\<lambda>item. includesStr (toLowerCase serviceItemName) item) specialItems)"

section \<open>The store\<close>

text \<open>
  The tables of the relational store, with the columns the controllers read or write.
  Identifiers are the strings the store generates for new rows. Timestamps are
  milliseconds of local wall-clock time, so that \<open>setHours(0, 0, 0, 0)\<close> is the
  truncation to a multiple of one day.
\<close>

type_synonym ident = string
type_synonym timestamp = int

record branch =
  b_id :: ident
  b_name :: string
  b_code :: string
  b_location :: "string option"
  b_isActive :: bool

record washer =
  w_id :: ident
  w_name :: string
  w_phone :: "string option"
  w_isActive :: bool
  w_branchId :: ident

record serviceItem =
  s_id :: ident
  s_name :: string
  s_price :: real
  s_isActive :: bool

text \<open>
  A line item. The migration that adds its \<open>price\<close> column is not among the sources;
  the column is read as nullable, which covers a column that is never null.
\<close>

record washedItem =
  wi_carWashId :: ident
  wi_washerId :: ident
  wi_serviceItemId :: ident
  wi_price :: "real option"

text \<open>A wash job; \<open>cw_washers\<close> is its side of the job-to-washer link table.\<close>

record carWash =
  cw_id :: ident
  cw_branchId :: ident
  cw_carNumber :: "string option"
  cw_carModel :: "string option"
  cw_customerName :: "string option"
  cw_customerPhone :: "string option"
  cw_paymentMethod :: "string option"
  cw_totalAmount :: real
  cw_washDate :: timestamp
  cw_washers :: "ident list"

record dailySummary =
  ds_washerId :: ident
  ds_date :: timestamp
  ds_branchId :: ident
  ds_totalCarsWashed :: int
  ds_totalItemsWashed :: int

record companyDailySummary =
  cds_branchId :: ident
  cds_date :: timestamp
  cds_totalCarsWashed :: int
  cds_totalItemsWashed :: int

record store =
  branchTable :: "branch list"
  washerTable :: "washer list"
  serviceItemTable :: "serviceItem list"
  carWashTable :: "carWash list"
  washedItemTable :: "washedItem list"
  dailySummaryTable :: "dailySummary list"
  companyDailySummaryTable :: "companyDailySummary list"

definition startOfDay :: "timestamp \<Rightarrow> timestamp" where
  "startOfDay t = t - t mod 86400000"


section \<open>Job ingestion\<close>

record itemReq =
  washerName :: string
  serviceItemName :: string
  customPrice :: "real option"

record carWashReq =
  carNumber :: "string option"
  carModel :: "string option"
  customerName :: "string option"
  customerPhone :: "string option"
  paymentMethod :: "string option"
  items :: "itemReq list"

datatype error =
    NoItems
  | BadPaymentMethod
  | IdowuRequired
  | WashersNotFound "string list"
  | ServiceItemsNotFound "string list"
  | CustomPriceRequired "string list"
  | StoreError

text \<open>\<open>[...new Set(xs)]\<close>: the distinct elements, each at its first occurrence.\<close>

definition uniq :: "'a list \<Rightarrow> 'a list" where
  "uniq xs = foldl (\<lambda>acc x. if x \<in> set acc then acc else acc @ [x]) [] xs"

text \<open>
  Reading property \<open>k\<close> of \<open>Object.fromEntries(entries)\<close>: the last entry for \<open>k\<close> when
  there is one; otherwise what every object inherits from \<open>Object.prototype\<close> under that
  name (a function or an object, never a string or a number); otherwise \<open>undefined\<close>.
\<close>

datatype 'a property = Own 'a | Inherited | Undefined

definition objectPrototypeKeys :: "string list" where
  "objectPrototypeKeys =
     [''constructor'', ''hasOwnProperty'', ''isPrototypeOf'', ''propertyIsEnumerable'',
      ''toLocaleString'', ''toString'', ''valueOf'', ''__proto__'',
      ''__defineGetter__'', ''__defineSetter__'', ''__lookupGetter__'', ''__lookupSetter__'']"

definition getProp :: "(string \<times> 'a) list \<Rightarrow> string \<Rightarrow> 'a property" where
  "getProp entries k =
     (case map_of (rev entries) k of
        Some v \<Rightarrow> Own v
      | None \<Rightarrow> if k \<in> set objectPrototypeKeys then Inherited else Undefined)"

text \<open>
  Truthiness of such a property: an own value here is a generated identifier (a
  non-empty string) or an object, an inherited one is a function or an object.
\<close>

definition truthy :: "'a property \<Rightarrow> bool" where
  "truthy p = (case p of Undefined \<Rightarrow> False | _ \<Rightarrow> True)"

text \<open>The three reads at the start of \<open>createCarWashRecord\<close>.\<close>

definition washerNames :: "carWashReq \<Rightarrow> string list" where
  "washerNames req = uniq (map washerName (items req))"

definition serviceItemNames :: "carWashReq \<Rightarrow> string list" where
  "serviceItemNames req = uniq (map serviceItemName (items req))"

definition washerMap :: "store \<Rightarrow> ident \<Rightarrow> carWashReq \<Rightarrow> (string \<times> ident) list" where
  "washerMap st branchId req =
     (let washers = filter (\<lambda>w. w_name w \<in> set (washerNames req) \<and> w_isActive w
                                  \<and> w_branchId w = branchId) (washerTable st)
      in map (\<lambda>w. (w_name w, w_id w)) washers)"

definition serviceItemMap :: "store \<Rightarrow> carWashReq \<Rightarrow> (string \<times> serviceItem) list" where
  "serviceItemMap st req =
     (let serviceItems = filter (\<lambda>s. s_name s \<in> set (serviceItemNames req) \<and> s_isActive s)
                                (serviceItemTable st)
      in map (\<lambda>s. (s_name s, s)) serviceItems)"

definition IdowuWasher :: "store \<Rightarrow> ident \<Rightarrow> washer option" where
  "IdowuWasher st branchId =
     find (\<lambda>w. toLowerCase (w_name w) = toLowerCase ''Idowu'' \<and> w_branchId w = branchId
                \<and> w_isActive w) (washerTable st)"

definition hasSpecialItems :: "carWashReq \<Rightarrow> bool" where
  "hasSpecialItems req = list_ex (\<lambda>item. isSpecialItem (serviceItemName item)) (items req)"

definition missingWashers :: "store \<Rightarrow> ident \<Rightarrow> carWashReq \<Rightarrow> string list" where
  "missingWashers st branchId req =
     filter (\<lambda>name. \<not> truthy (getProp (washerMap st branchId req) name)) (washerNames req)"

definition missingServiceItems :: "store \<Rightarrow> carWashReq \<Rightarrow> string list" where
  "missingServiceItems st req =
     filter (\<lambda>name. \<not> truthy (getProp (serviceItemMap st req) name)) (serviceItemNames req)"

text \<open>
  The loop over the lines that collects the variable-priced items (list price 0) whose
  line carries no positive custom price.
\<close>

definition itemsWithMissingPrices :: "store \<Rightarrow> carWashReq \<Rightarrow> string list" where
  "itemsWithMissingPrices st req =
     map serviceItemName
       (filter (\<lambda>item.
          (case getProp (serviceItemMap st req) (serviceItemName item) of
             Own s \<Rightarrow> s_price s = 0
                       \<and> (case customPrice item of None \<Rightarrow> True | Some c \<Rightarrow> c = 0 \<or> c \<le> 0)
           | _ \<Rightarrow> False))
          (items req))"

text \<open>\<open>paymentMethod && ![\<dots>].includes(paymentMethod.toLowerCase())\<close>.\<close>

definition badPaymentMethod :: "carWashReq \<Rightarrow> bool" where
  "badPaymentMethod req =
     (case paymentMethod req of
        None \<Rightarrow> False
      | Some pm \<Rightarrow> pm \<noteq> [] \<and> toLowerCase pm \<notin> set [''cash'', ''transfer''])"

text \<open>
  The checks of \<open>createCarWashRecord\<close> that answer with status 400, in the order of the
  source; \<open>None\<close> when the submission passes them all.
\<close>

definition validateSubmission :: "store \<Rightarrow> ident \<Rightarrow> carWashReq \<Rightarrow> error option" where
  "validateSubmission st branchId req =
     (if items req = [] then Some NoItems
      else if badPaymentMethod req then Some BadPaymentMethod
      else if hasSpecialItems req \<and> IdowuWasher st branchId = None then Some IdowuRequired
      else if missingWashers st branchId req \<noteq> [] then
        Some (WashersNotFound (missingWashers st branchId req))
      else if missingServiceItems st req \<noteq> [] then
        Some (ServiceItemsNotFound (missingServiceItems st req))
      else if itemsWithMissingPrices st req \<noteq> [] then
        Some (CustomPriceRequired (itemsWithMissingPrices st req))
      else None)"

text \<open>
  One element of \<open>itemsWithIds\<close>: the credited washer, the service item and the price of
  a line. The result is \<open>None\<close> when one of the three is not a value the store accepts
  for its column (a property inherited from \<open>Object.prototype\<close> in place of a service
  item or of a washer identifier, or no Idowu washer to take a special line); the
  creation of the job then throws. The two name fields the source adds to the element
  are never read again and are left out.
\<close>

record resolvedItem =
  ri_washerId :: ident
  ri_serviceItemId :: ident
  ri_price :: real

definition resolveItem :: "store \<Rightarrow> ident \<Rightarrow> carWashReq \<Rightarrow> itemReq \<Rightarrow> resolvedItem option" where
  "resolveItem st branchId req item =
     (case getProp (serviceItemMap st req) (serviceItemName item) of
        Own serviceItemData \<Rightarrow>
          (let finalPrice =
                 (if s_price serviceItemData = 0
                     \<and> (case customPrice item of None \<Rightarrow> False | Some c \<Rightarrow> c \<noteq> 0)
                  then the (customPrice item)
                  else s_price serviceItemData);
               actualWasherId =
                 (if isSpecialItem (serviceItemName item) then
                    map_option w_id (IdowuWasher st branchId)
                  else
                    (case getProp (washerMap st branchId req) (washerName item) of
                       Own wid \<Rightarrow> Some wid
                     | _ \<Rightarrow> None))
           in case actualWasherId of
                Some wid \<Rightarrow>
                  Some \<lparr>ri_washerId = wid, ri_serviceItemId = s_id serviceItemData,
                        ri_price = finalPrice\<rparr>
              | None \<Rightarrow> None)
      | _ \<Rightarrow> None)"

definition itemsWithIds :: "store \<Rightarrow> ident \<Rightarrow> carWashReq \<Rightarrow> resolvedItem option list" where
  "itemsWithIds st branchId req = map (resolveItem st branchId req) (items req)"

text \<open>\<open>upsert\<close> on the per-washer-day table, keyed by washer, date and branch.\<close>

definition dsKey :: "ident \<Rightarrow> timestamp \<Rightarrow> ident \<Rightarrow> dailySummary \<Rightarrow> bool" where
  "dsKey washerId date branchId r =
     (ds_washerId r = washerId \<and> ds_date r = date \<and> ds_branchId r = branchId)"

definition upsertDailySummary ::
  "ident \<Rightarrow> timestamp \<Rightarrow> ident \<Rightarrow> int \<Rightarrow> int \<Rightarrow> dailySummary list \<Rightarrow> dailySummary list" where
  "upsertDailySummary washerId date branchId cars nitems tbl =
     (if list_ex (dsKey washerId date branchId) tbl then
        map (\<lambda>r. if dsKey washerId date branchId r
                  then r\<lparr>ds_totalCarsWashed := ds_totalCarsWashed r + cars,
                         ds_totalItemsWashed := ds_totalItemsWashed r + nitems\<rparr>
                  else r) tbl
      else
        tbl @ [\<lparr>ds_washerId = washerId, ds_date = date, ds_branchId = branchId,
                 ds_totalCarsWashed = cars, ds_totalItemsWashed = nitems\<rparr>])"

text \<open>\<open>upsert\<close> on the per-branch-day table, keyed by branch and date.\<close>

definition cdsKey :: "ident \<Rightarrow> timestamp \<Rightarrow> companyDailySummary \<Rightarrow> bool" where
  "cdsKey branchId date r = (cds_branchId r = branchId \<and> cds_date r = date)"

definition upsertCompanyDailySummary ::
  "ident \<Rightarrow> timestamp \<Rightarrow> int \<Rightarrow> companyDailySummary list \<Rightarrow> companyDailySummary list" where
  "upsertCompanyDailySummary branchId date nitems tbl =
     (if list_ex (cdsKey branchId date) tbl then
        map (\<lambda>r. if cdsKey branchId date r
                  then r\<lparr>cds_totalCarsWashed := cds_totalCarsWashed r + 1,
                         cds_totalItemsWashed := cds_totalItemsWashed r + nitems\<rparr>
                  else r) tbl
      else
        tbl @ [\<lparr>cds_branchId = branchId, cds_date = date,
                 cds_totalCarsWashed = 1, cds_totalItemsWashed = nitems\<rparr>])"

text \<open>
  The second loop of the transaction, for one washer: whether the washer counts a new
  car. The query runs on the store that already holds the job just created.
\<close>

definition washerCarInvolvement :: "carWash list \<Rightarrow> ident \<Rightarrow> timestamp \<Rightarrow> carWash \<Rightarrow> ident \<Rightarrow> bool" where
  "washerCarInvolvement tbl branchId today carWash washerId =
     (let existingCarWashes =
            filter (\<lambda>cw. cw_branchId cw = branchId \<and> today \<le> cw_washDate cw
                          \<and> washerId \<in> set (cw_washers cw)) tbl
      in \<not> list_ex (\<lambda>cw. cw_id cw = cw_id carWash) existingCarWashes)"

text \<open>
  \<open>washerItemCounts[washerId] || 0\<close>: the number of lines credited to the washer. The
  object that holds the counts is keyed by washer identifiers, which the store generates.
\<close>

definition washerItemCounts :: "resolvedItem list \<Rightarrow> ident \<Rightarrow> int" where
  "washerItemCounts its washerId = int (length (filter (\<lambda>item. ri_washerId item = washerId) its))"

text \<open>
  The body of the transaction: the job with its lines and its washer links, then the
  per-washer-day rows, then the per-branch-day row. The job's identifier \<open>newId\<close> and
  its wash date \<open>now\<close> are what the store generates for the new row.
\<close>

definition persistCarWash ::
  "store \<Rightarrow> ident \<Rightarrow> carWashReq \<Rightarrow> timestamp \<Rightarrow> ident \<Rightarrow> resolvedItem list
     \<Rightarrow> (carWash \<times> washedItem list) \<times> store" where
  "persistCarWash st branchId req now newId its =
     (let totalAmount = foldl (\<lambda>sum item. sum + ri_price item) 0 its;
          allInvolvedWasherIds = uniq (map ri_washerId its);
          carWash = \<lparr>cw_id = newId, cw_branchId = branchId,
                     cw_carNumber = carNumber req, cw_carModel = carModel req,
                     cw_customerName = customerName req, cw_customerPhone = customerPhone req,
                     cw_paymentMethod = paymentMethod req, cw_totalAmount = totalAmount,
                     cw_washDate = now, cw_washers = allInvolvedWasherIds\<rparr>;
          newItems = map (\<lambda>item. \<lparr>wi_carWashId = newId, wi_washerId = ri_washerId item,
                                    wi_serviceItemId = ri_serviceItemId item,
                                    wi_price = Some (ri_price item)\<rparr>) its;
          st1 = st\<lparr>carWashTable := carWashTable st @ [carWash],
                   washedItemTable := washedItemTable st @ newItems\<rparr>;
          today = startOfDay now;
          summaries =
            foldl (\<lambda>tbl washerId.
                     upsertDailySummary washerId today branchId
                       (if washerCarInvolvement (carWashTable st1) branchId today carWash washerId
                        then 1 else 0)
                       (washerItemCounts its washerId) tbl)
                  (dailySummaryTable st1) allInvolvedWasherIds;
          st2 = st1\<lparr>dailySummaryTable := summaries\<rparr>;
          st3 = st2\<lparr>companyDailySummaryTable :=
                      upsertCompanyDailySummary branchId today (int (length its))
                        (companyDailySummaryTable st2)\<rparr>
      in ((carWash, newItems), st3))"

text \<open>
  \<open>createCarWashRecord\<close>: the answer and the store afterwards. An answer \<open>Inl e\<close> is a
  rejection (status 400, or 500 for \<open>StoreError\<close>, where the transaction is rolled back);
  \<open>Inr\<close> carries the created job and its lines. The store refuses the new job when its
  branch does not exist or its identifier is taken.
\<close>

definition createCarWashRecord ::
  "store \<Rightarrow> ident \<Rightarrow> carWashReq \<Rightarrow> timestamp \<Rightarrow> ident
     \<Rightarrow> (error + carWash \<times> washedItem list) \<times> store" where
  "createCarWashRecord st branchId req now newId =
     (case validateSubmission st branchId req of
        Some e \<Rightarrow> (Inl e, st)
      | None \<Rightarrow>
          if list_ex (\<lambda>r. r = None) (itemsWithIds st branchId req)
             \<or> \<not> list_ex (\<lambda>b. b_id b = branchId) (branchTable st)
             \<or> list_ex (\<lambda>cw. cw_id cw = newId) (carWashTable st)
          then (Inl StoreError, st)
          else
            (case persistCarWash st branchId req now newId
                    (map the (itemsWithIds st branchId req)) of
               (created, st') \<Rightarrow> (Inr created, st')))"

section \<open>Read-side summaries\<close>






























section \<open>The job counter of a washer\<close>

text \<open>
  The per-washer-day job counter for a washer, a day and a branch, as the store holds
  it: the total over the rows with that key. The table's unique index allows at most one
  such row; no row reads as 0.
\<close>

definition carsCounted :: "dailySummary list \<Rightarrow> ident \<Rightarrow> timestamp \<Rightarrow> ident \<Rightarrow> int" where
  "carsCounted tbl washerId date branchId =
     sum_list (map ds_totalCarsWashed (filter (dsKey washerId date branchId) tbl))"

section \<open>The split policy in double precision\<close>






section \<open>Example data\<close>

text \<open>
  A store with two branches, the washers Idowu and Sam in the first branch, an Idowu
  washer in the second, and the service items of the examples: Engine Wash at 300, Full
  Wash at 50 and Car Rug, whose price is given per job.
\<close>

definition exBranchA :: branch where
  "exBranchA = \<lparr>b_id = ''b1'', b_name = ''Branch A'', b_code = ''A'', b_location = None,
                 b_isActive = True\<rparr>"

definition exBranchB :: branch where
  "exBranchB = \<lparr>b_id = ''b2'', b_name = ''Branch B'', b_code = ''B'', b_location = None,
                 b_isActive = True\<rparr>"

definition exIdowu :: washer where
  "exIdowu = \<lparr>w_id = ''w1'', w_name = ''Idowu'', w_phone = None, w_isActive = True,
               w_branchId = ''b1''\<rparr>"

definition exSam :: washer where
  "exSam = \<lparr>w_id = ''w2'', w_name = ''Sam'', w_phone = None, w_isActive = True,
             w_branchId = ''b1''\<rparr>"

definition exIdowuB :: washer where
  "exIdowuB = \<lparr>w_id = ''w3'', w_name = ''Idowu'', w_phone = None, w_isActive = True,
                w_branchId = ''b2''\<rparr>"

definition exEngineWash :: serviceItem where
  "exEngineWash = \<lparr>s_id = ''s1'', s_name = ''Engine Wash'', s_price = 300, s_isActive = True\<rparr>"

definition exFullWash :: serviceItem where
  "exFullWash = \<lparr>s_id = ''s2'', s_name = ''Full Wash'', s_price = 50, s_isActive = True\<rparr>"

definition exCarRug :: serviceItem where
  "exCarRug = \<lparr>s_id = ''s3'', s_name = ''Car Rug'', s_price = 0, s_isActive = True\<rparr>"

definition exStore :: store where
  "exStore = \<lparr>branchTable = [exBranchA, exBranchB],
               washerTable = [exIdowu, exSam, exIdowuB],
               serviceItemTable = [exEngineWash, exFullWash, exCarRug],
               carWashTable = [], washedItemTable = [],
               dailySummaryTable = [], companyDailySummaryTable = []\<rparr>"

text \<open>The same store without an Idowu washer in the first branch.\<close>

definition exStoreNoIdowu :: store where
  "exStoreNoIdowu = exStore\<lparr>washerTable := [exSam, exIdowuB]\<rparr>"

definition exLine :: "string \<Rightarrow> string \<Rightarrow> itemReq" where
  "exLine w s = \<lparr>washerName = w, serviceItemName = s, customPrice = None\<rparr>"

definition exReq :: "itemReq list \<Rightarrow> carWashReq" where
  "exReq ls = \<lparr>carNumber = None, carModel = None, customerName = None, customerPhone = None,
               paymentMethod = Some ''cash'', items = ls\<rparr>"

text \<open>A submission of one Car Rug line by Sam at the custom price 12.344.\<close>

definition exRugReq :: carWashReq where
  "exRugReq = exReq [\<lparr>washerName = ''Sam'', serviceItemName = ''Car Rug'',
                      customPrice = Some (12344 / 1000)\<rparr>]"

definition exJob :: "ident \<Rightarrow> ident \<Rightarrow> real \<Rightarrow> ident list \<Rightarrow> carWash" where
  "exJob i b amount ws =
     \<lparr>cw_id = i, cw_branchId = b, cw_carNumber = None, cw_carModel = None,
      cw_customerName = None, cw_customerPhone = None, cw_paymentMethod = Some ''cash'',
      cw_totalAmount = amount, cw_washDate = 1000, cw_washers = ws\<rparr>"

text \<open>
  A store with one job whose single line, a Full Wash by Sam, carries the stored price 0
  while the list price of Full Wash is 50.
\<close>

definition exStoreZeroPrice :: store where
  "exStoreZeroPrice =
     exStore\<lparr>carWashTable := [exJob ''c1'' ''b1'' 0 [''w2'']],
              washedItemTable := [\<lparr>wi_carWashId = ''c1'', wi_washerId = ''w2'',
                                   wi_serviceItemId = ''s2'', wi_price = Some 0\<rparr>]\<rparr>"

text \<open>
  A store with one job in each branch, each with a single Engine Wash line credited to
  the branch's Idowu washer at the stored price 100, the list price of Engine Wash when
  the two jobs were taken.
\<close>

definition exStoreTwoBranches :: store where
  "exStoreTwoBranches =
     exStore\<lparr>carWashTable := [exJob ''c1'' ''b1'' 100 [''w1''], exJob ''c2'' ''b2'' 100 [''w3'']],
              washedItemTable := [\<lparr>wi_carWashId = ''c1'', wi_washerId = ''w1'',
                                   wi_serviceItemId = ''s1'', wi_price = Some 100\<rparr>,
                                  \<lparr>wi_carWashId = ''c2'', wi_washerId = ''w3'',
                                   wi_serviceItemId = ''s1'', wi_price = Some 100\<rparr>]\<rparr>"

section \<open>Facts about strings\<close>

lemma includesStr_sublist: "includesStr s k \<longleftrightarrow> sublist k s"
  by (induction s) (auto simp: sublist_Cons_right)

lemma isSpecialItem_iff:
  "isSpecialItem n \<longleftrightarrow>
     (\<exists>k \<in> {''engine'', ''radiator'', ''condenser''}. sublist k (toLowerCase n))"
  by (simp add: isSpecialItem_def includesStr_sublist)

lemma toLowerCase_Engine_Wash: "toLowerCase ''Engine Wash'' = ''engine wash''"
  by (simp add: toLowerCase_def toLowerChar_def)

lemma toLowerCase_Car_Rug: "toLowerCase ''Car Rug'' = ''car rug''"
  by (simp add: toLowerCase_def toLowerChar_def)

lemma toLowerCase_Full_Wash: "toLowerCase ''Full Wash'' = ''full wash''"
  by (simp add: toLowerCase_def toLowerChar_def)

lemma isSpecialItem_Engine_Wash: "isSpecialItem ''Engine Wash''"
  by (simp add: isSpecialItem_def toLowerCase_Engine_Wash)

lemma not_isSpecialItem_Full_Wash: "\<not> isSpecialItem ''Full Wash''"
  by (simp add: isSpecialItem_def toLowerCase_Full_Wash)

lemma not_isSpecialItem_Car_Rug: "\<not> isSpecialItem ''Car Rug''"
  by (simp add: isSpecialItem_def toLowerCase_Car_Rug)

section \<open>The split policy in exact arithmetic\<close>

text \<open>
  C4. A name that contains, ignoring case, one of engine, radiator, condenser is split
  one third to the washer and two thirds to the company, whether or not it also
  contains rug; otherwise a name that contains rug is split in halves; every other name
  is split 60 percent to the company and 40 percent to the washer.
\<close>

theorem calculatePaymentSplit_policy:
  "calculatePaymentSplit name p =
     (if \<exists>k \<in> {''engine'', ''radiator'', ''condenser''}. sublist k (toLowerCase name) then
        \<lparr>companyShare = 2 * p / 3, washerShare = p / 3\<rparr>
      else if sublist ''rug'' (toLowerCase name) then
        \<lparr>companyShare = p / 2, washerShare = p / 2\<rparr>
      else
        \<lparr>companyShare = 60 * p / 100, washerShare = 40 * p / 100\<rparr>)"
  by (simp add: calculatePaymentSplit_def includesStr_sublist)

theorem calculatePaymentSplit_policy_witness:
  "calculatePaymentSplit ''Engine Rug'' 300 = \<lparr>companyShare = 200, washerShare = 100\<rparr>
   \<and> calculatePaymentSplit ''Car Rug'' 100 = \<lparr>companyShare = 50, washerShare = 50\<rparr>
   \<and> calculatePaymentSplit ''Full Wash'' 50 = \<lparr>companyShare = 30, washerShare = 20\<rparr>"
  using calculatePaymentSplit_policy [of "''Engine Rug''" 300]
        calculatePaymentSplit_policy [of "''Car Rug''" 100]
        calculatePaymentSplit_policy [of "''Full Wash''" 50]
  by (simp add: toLowerCase_def toLowerChar_def sublist_Cons_right)

text \<open>
  C9. The copy of the split function in the payment controller returns, for every name
  and every price, the same pair of shares as the copy in the record controller.
\<close>

theorem calculatePaymentSplit_copies_equal:
  "calculatePaymentSplit_payment name price = calculatePaymentSplit name price"
  by (simp add: calculatePaymentSplit_payment_def calculatePaymentSplit_def)

section \<open>Rounding error of the split in double precision\<close>


















section \<open>Facts about the example data\<close>

lemmas ex_defs = exStore_def exStoreNoIdowu_def exBranchA_def exBranchB_def exIdowu_def
  exSam_def exIdowuB_def exEngineWash_def exFullWash_def exCarRug_def exLine_def exReq_def
  exRugReq_def exJob_def exStoreZeroPrice_def exStoreTwoBranches_def

section \<open>Job ingestion: validation and credit\<close>


lemma set_uniq_aux: "set (foldl (\<lambda>acc x. if x \<in> set acc then acc else acc @ [x]) a xs) = set a \<union> set xs"
  by (induction xs arbitrary: a) auto

lemma set_uniq: "set (uniq xs) = set xs"
  by (simp add: uniq_def set_uniq_aux)


lemma set_serviceItemNames: "set (serviceItemNames req) = serviceItemName ` set (items req)"
  by (simp add: serviceItemNames_def set_uniq)

lemma getProp_Own_mem: "getProp es k = Own v \<Longrightarrow> (k, v) \<in> set es"
  by (auto simp: getProp_def split: option.splits if_splits dest: map_of_SomeD)


lemma hasSpecialItems_iff:
  "hasSpecialItems req \<longleftrightarrow> (\<exists>item \<in> set (items req). isSpecialItem (serviceItemName item))"
  by (simp add: hasSpecialItems_def list_ex_iff)

lemma toLowerCase_Idowu: "toLowerCase ''Idowu'' = ''idowu''"
  by (simp add: toLowerCase_def toLowerChar_def)

lemma IdowuWasher_None_iff:
  "IdowuWasher st branchId = None \<longleftrightarrow>
     \<not> (\<exists>w \<in> set (washerTable st). w_isActive w \<and> w_branchId w = branchId \<and> toLowerCase (w_name w) = ''idowu'')"
  by (auto simp: IdowuWasher_def find_None_iff toLowerCase_Idowu)

lemma IdowuWasher_SomeD:
  "IdowuWasher st branchId = Some w \<Longrightarrow>
     w \<in> set (washerTable st) \<and> w_isActive w \<and> w_branchId w = branchId \<and> toLowerCase (w_name w) = ''idowu''"
  by (auto simp: IdowuWasher_def find_Some_iff toLowerCase_Idowu)

lemma washerMap_mem:
  "(n, i) \<in> set (washerMap st branchId req) \<longleftrightarrow>
     n \<in> set (washerNames req) \<and> (\<exists>w \<in> set (washerTable st). w_name w = n \<and> w_id w = i \<and> w_isActive w \<and> w_branchId w = branchId)"
  by (auto simp: washerMap_def)

lemma createCarWashRecord_rejects:
  "validateSubmission st branchId req = Some e \<Longrightarrow> createCarWashRecord st branchId req now newId = (Inl e, st)"
  by (simp add: createCarWashRecord_def)

text \<open>
  C3. A submission with a line whose service item is special, in a branch that has no
  active washer named Idowu (ignoring case), is rejected, and the store is left as it
  was: no job, no line item, no row of either summary table is created or changed. The
  rejection is the one for the missing Idowu washer, unless the payment method is
  already refused.
\<close>

theorem createCarWashRecord_special_needs_Idowu:
  assumes "item \<in> set (items req)"
    and "\<exists>k \<in> {''engine'', ''radiator'', ''condenser''}. sublist k (toLowerCase (serviceItemName item))"
    and "\<forall>w \<in> set (washerTable st). \<not> (w_isActive w \<and> w_branchId w = branchId \<and> toLowerCase (w_name w) = ''idowu'')"
  shows "createCarWashRecord st branchId req now newId =
           (Inl (if badPaymentMethod req then BadPaymentMethod else IdowuRequired), st)"
proof -
  from assms(1,2) have sp: "hasSpecialItems req"
    unfolding hasSpecialItems_iff isSpecialItem_iff by blast
  from assms(3) have no: "IdowuWasher st branchId = None"
    unfolding IdowuWasher_None_iff by blast
  from assms(1) have ne: "items req \<noteq> []" by auto
  have "validateSubmission st branchId req =
          Some (if badPaymentMethod req then BadPaymentMethod else IdowuRequired)"
    using sp no ne by (simp add: validateSubmission_def)
  then show ?thesis by (rule createCarWashRecord_rejects)
qed


theorem createCarWashRecord_special_needs_Idowu_witness:
  "createCarWashRecord exStoreNoIdowu ''b1'' (exReq [exLine ''Sam'' ''Engine Wash'']) 1000 ''c1''
     = (Inl IdowuRequired, exStoreNoIdowu)"
  using createCarWashRecord_special_needs_Idowu [of "exLine ''Sam'' ''Engine Wash''" "exReq [exLine ''Sam'' ''Engine Wash'']"
               exStoreNoIdowu "''b1''" 1000 "''c1''"]
  by (simp add: ex_defs toLowerCase_def toLowerChar_def badPaymentMethod_def sublist_Cons_right)

lemma resolveItem_SomeD:
  assumes "resolveItem st branchId req item = Some r"
  shows "\<exists>w \<in> set (washerTable st).
           w_id w = ri_washerId r \<and> w_isActive w \<and> w_branchId w = branchId \<and>
           (if isSpecialItem (serviceItemName item)
            then toLowerCase (w_name w) = ''idowu'' else w_name w = washerName item)"
proof (cases "isSpecialItem (serviceItemName item)")
  case True
  with assms obtain w where w: "IdowuWasher st branchId = Some w" and "ri_washerId r = w_id w"
    by (auto simp: resolveItem_def Let_def split: property.splits option.splits)
  with IdowuWasher_SomeD [OF w] True show ?thesis by auto
next
  case False
  with assms have "getProp (washerMap st branchId req) (washerName item) = Own (ri_washerId r)"
    by (auto simp: resolveItem_def Let_def split: property.splits option.splits)
  then have "(washerName item, ri_washerId r) \<in> set (washerMap st branchId req)"
    by (rule getProp_Own_mem)
  with False show ?thesis by (auto simp: washerMap_mem)
qed

lemma persistCarWash_lines:
  assumes "persistCarWash st branchId req now newId its = ((job, lines), st')"
  shows "lines = map (\<lambda>item. \<lparr>wi_carWashId = newId, wi_washerId = ri_washerId item,
                                wi_serviceItemId = ri_serviceItemId item,
                                wi_price = Some (ri_price item)\<rparr>) its"
    and "cw_id job = newId"
    and "washedItemTable st' = washedItemTable st @ lines"
    and "carWashTable st' = carWashTable st @ [job]"
  using assms by (auto simp: persistCarWash_def Let_def)

lemma createCarWashRecord_InrD:
  assumes "createCarWashRecord st branchId req now newId = (Inr created, st')"
  shows "validateSubmission st branchId req = None"
    and "\<forall>r \<in> set (itemsWithIds st branchId req). r \<noteq> None"
    and "persistCarWash st branchId req now newId (map the (itemsWithIds st branchId req)) = (created, st')"
proof -
  from assms show v: "validateSubmission st branchId req = None"
    by (auto simp: createCarWashRecord_def split: option.splits)
  from assms v have "\<not> list_ex (\<lambda>r. r = None) (itemsWithIds st branchId req)"
    by (auto simp: createCarWashRecord_def split: if_splits)
  then have "None \<notin> set (itemsWithIds st branchId req)"
    by (simp add: list_ex_iff)
  then show "\<forall>r \<in> set (itemsWithIds st branchId req). r \<noteq> None"
    by metis
  from assms v show "persistCarWash st branchId req now newId
      (map the (itemsWithIds st branchId req)) = (created, st')"
    by (auto simp: createCarWashRecord_def split: if_splits prod.splits)
qed

text \<open>
  C2. After a successful ingestion the new line items are the submitted lines in order,
  all of the new job. The washer credited on a line whose service item name contains,
  ignoring case, engine, radiator or condenser is an active washer of the branch named
  Idowu (ignoring case), whatever washer name the line submitted; on every other line,
  rug lines included, it is an active washer of the branch with the submitted name.
\<close>

theorem createCarWashRecord_credited_washer:
  assumes "createCarWashRecord st branchId req now newId = (Inr (job, lines), st')"
  shows "washedItemTable st' = washedItemTable st @ lines \<and>
         list_all2 (\<lambda>item line.
            wi_carWashId line = cw_id job \<and>
            (\<exists>w \<in> set (washerTable st).
               w_id w = wi_washerId line \<and> w_isActive w \<and> w_branchId w = branchId \<and>
               (if \<exists>k \<in> {''engine'', ''radiator'', ''condenser''}.
                      sublist k (toLowerCase (serviceItemName item))
                then toLowerCase (w_name w) = ''idowu''
                else w_name w = washerName item)))
           (items req) lines"
proof -
  let ?mk = "\<lambda>item. \<lparr>wi_carWashId = newId, wi_washerId = ri_washerId item,
                       wi_serviceItemId = ri_serviceItemId item,
                       wi_price = Some (ri_price item)\<rparr>"
  note D = createCarWashRecord_InrD [OF assms]
  note P = persistCarWash_lines [OF D(3)]
  have lines: "lines = map (\<lambda>item. ?mk (the (resolveItem st branchId req item))) (items req)"
    using P(1) by (simp add: itemsWithIds_def comp_def)
  have "\<exists>w \<in> set (washerTable st).
           w_id w = ri_washerId (the (resolveItem st branchId req item)) \<and> w_isActive w
           \<and> w_branchId w = branchId \<and>
           (if isSpecialItem (serviceItemName item)
            then toLowerCase (w_name w) = ''idowu'' else w_name w = washerName item)"
    if "item \<in> set (items req)" for item
  proof -
    from that D(2) obtain r where r: "resolveItem st branchId req item = Some r"
      by (auto simp: itemsWithIds_def)
    from resolveItem_SomeD [OF r] r show ?thesis by simp
  qed
  then have "list_all2 (\<lambda>item line.
            wi_carWashId line = cw_id job \<and>
            (\<exists>w \<in> set (washerTable st).
               w_id w = wi_washerId line \<and> w_isActive w \<and> w_branchId w = branchId \<and>
               (if isSpecialItem (serviceItemName item)
                then toLowerCase (w_name w) = ''idowu''
                else w_name w = washerName item)))
           (items req) lines"
    unfolding lines by (simp add: list_all2_map2 list_all2_same P(2))
  then show ?thesis using P(3) by (simp add: isSpecialItem_iff)
qed

theorem createCarWashRecord_credited_washer_witness:
  "list_all2 (\<lambda>item line.
            wi_carWashId line = ''c1'' \<and>
            (\<exists>w \<in> set (washerTable exStore).
               w_id w = wi_washerId line \<and> w_isActive w \<and> w_branchId w = ''b1'' \<and>
               (if \<exists>k \<in> {''engine'', ''radiator'', ''condenser''}.
                      sublist k (toLowerCase (serviceItemName item))
                then toLowerCase (w_name w) = ''idowu''
                else w_name w = washerName item)))
     [exLine ''Sam'' ''Engine Wash'', exLine ''Sam'' ''Full Wash'']
     [\<lparr>wi_carWashId = ''c1'', wi_washerId = ''w1'', wi_serviceItemId = ''s1'', wi_price = Some 300\<rparr>,
      \<lparr>wi_carWashId = ''c1'', wi_washerId = ''w2'', wi_serviceItemId = ''s2'', wi_price = Some 50\<rparr>]"
proof -
  let ?r = "createCarWashRecord exStore ''b1''
              (exReq [exLine ''Sam'' ''Engine Wash'', exLine ''Sam'' ''Full Wash'']) 1000 ''c1''"
  let ?job = "\<lparr>cw_id = ''c1'', cw_branchId = ''b1'', cw_carNumber = None, cw_carModel = None,
      cw_customerName = None, cw_customerPhone = None, cw_paymentMethod = Some ''cash'',
      cw_totalAmount = 350, cw_washDate = 1000, cw_washers = [''w1'', ''w2'']\<rparr>"
  let ?lines = "[\<lparr>wi_carWashId = ''c1'', wi_washerId = ''w1'', wi_serviceItemId = ''s1'', wi_price = Some 300\<rparr>,
      \<lparr>wi_carWashId = ''c1'', wi_washerId = ''w2'', wi_serviceItemId = ''s2'', wi_price = Some 50\<rparr>]"
  have "fst ?r = Inr (?job, ?lines)"
    by code_simp
  then have "?r = (Inr (?job, ?lines), snd ?r)"
    by (simp add: prod_eq_iff)
  from createCarWashRecord_credited_washer [OF this] show ?thesis
    by (simp add: exReq_def)
qed








section \<open>Job ingestion: the per-washer-day job counter\<close>

text \<open>
  C1. Sam is credited on both lines of the first job of the day. The ingestion succeeds
  and counts two items for Sam, but Sam's job counter is created at 0, not at 1, while
  the branch's own job counter goes to 1.
\<close>

theorem createCarWashRecord_job_counter_stays_zero:
  "createCarWashRecord exStore ''b1'' (exReq [exLine ''Sam'' ''Full Wash'', exLine ''Sam'' ''Full Wash'']) 1000 ''c1''
     = (Inr (exJob ''c1'' ''b1'' 100 [''w2''],
             [\<lparr>wi_carWashId = ''c1'', wi_washerId = ''w2'', wi_serviceItemId = ''s2'', wi_price = Some 50\<rparr>,
              \<lparr>wi_carWashId = ''c1'', wi_washerId = ''w2'', wi_serviceItemId = ''s2'', wi_price = Some 50\<rparr>]),
        exStore\<lparr>carWashTable := [exJob ''c1'' ''b1'' 100 [''w2'']],
                washedItemTable :=
                  [\<lparr>wi_carWashId = ''c1'', wi_washerId = ''w2'', wi_serviceItemId = ''s2'', wi_price = Some 50\<rparr>,
                   \<lparr>wi_carWashId = ''c1'', wi_washerId = ''w2'', wi_serviceItemId = ''s2'', wi_price = Some 50\<rparr>],
                dailySummaryTable :=
                  [\<lparr>ds_washerId = ''w2'', ds_date = 0, ds_branchId = ''b1'',
                    ds_totalCarsWashed = 0, ds_totalItemsWashed = 2\<rparr>],
                companyDailySummaryTable :=
                  [\<lparr>cds_branchId = ''b1'', cds_date = 0, cds_totalCarsWashed = 1,
                    cds_totalItemsWashed = 2\<rparr>]\<rparr>)"
  by code_simp

theorem createCarWashRecord_job_counter_stays_zero_witness:
  "carsCounted
     (dailySummaryTable (snd (createCarWashRecord exStore ''b1''
        (exReq [exLine ''Sam'' ''Full Wash'', exLine ''Sam'' ''Full Wash'']) 1000 ''c1'')))
     ''w2'' 0 ''b1'' = 0"
  using createCarWashRecord_job_counter_stays_zero
  by (simp add: carsCounted_def dsKey_def)

text \<open>
  The same holds for every successful ingestion: the job just created is itself among
  the jobs of the day that link the washer, so the test for a first job never succeeds
  and no job counter ever moves.
\<close>

lemma startOfDay_le: "startOfDay t \<le> t"
  by (simp add: startOfDay_def)

lemma washerCarInvolvement_new:
  assumes "cw \<in> set tbl" "cw_branchId cw = b" "today \<le> cw_washDate cw" "wid \<in> set (cw_washers cw)"
  shows "\<not> washerCarInvolvement tbl b today cw wid"
  using assms by (auto simp: washerCarInvolvement_def list_ex_iff)

lemma carsCounted_upsert_zero:
  "carsCounted (upsertDailySummary w' d' b' 0 n tbl) w d b = carsCounted tbl w d b"
proof (cases "list_ex (dsKey w' d' b') tbl")
  case True
  have "carsCounted (map (\<lambda>r. if dsKey w' d' b' r
                  then r\<lparr>ds_totalCarsWashed := ds_totalCarsWashed r + 0,
                         ds_totalItemsWashed := ds_totalItemsWashed r + n\<rparr>
                  else r) tbl) w d b = carsCounted tbl w d b"
    by (induction tbl) (auto simp: carsCounted_def dsKey_def)
  with True show ?thesis by (simp add: upsertDailySummary_def)
next
  case False
  then show ?thesis by (simp add: upsertDailySummary_def carsCounted_def)
qed

lemma carsCounted_foldl_zero:
  "carsCounted (foldl (\<lambda>tbl wid. upsertDailySummary wid d' b' 0 (f wid) tbl) tbl ws) w d b
     = carsCounted tbl w d b"
  by (induction ws arbitrary: tbl) (simp_all add: carsCounted_upsert_zero)

lemma persistCarWash_carsCounted:
  assumes "persistCarWash st branchId req now newId its = (created, st')"
  shows "carsCounted (dailySummaryTable st') w d b = carsCounted (dailySummaryTable st) w d b"
proof -
  let ?ws = "uniq (map ri_washerId its)"
  let ?job = "fst created"
  let ?tbl = "carWashTable st @ [?job]"
  let ?today = "startOfDay now"
  have job: "cw_branchId ?job = branchId" "cw_washDate ?job = now" "cw_washers ?job = ?ws"
    using assms by (auto simp: persistCarWash_def Let_def)
  have tbl: "dailySummaryTable st' =
      foldl (\<lambda>tbl washerId.
               upsertDailySummary washerId ?today branchId
                 (if washerCarInvolvement ?tbl branchId ?today ?job washerId then 1 else 0)
                 (washerItemCounts its washerId) tbl)
            (dailySummaryTable st) ?ws"
    using assms by (auto simp: persistCarWash_def Let_def)
  have "\<not> washerCarInvolvement ?tbl branchId ?today ?job wid" if "wid \<in> set ?ws" for wid
    by (rule washerCarInvolvement_new) (use that job startOfDay_le in auto)
  then have "dailySummaryTable st' =
      foldl (\<lambda>tbl washerId.
               upsertDailySummary washerId ?today branchId 0 (washerItemCounts its washerId) tbl)
            (dailySummaryTable st) ?ws"
    unfolding tbl by (intro foldl_cong) auto
  then show ?thesis by (simp add: carsCounted_foldl_zero)
qed

lemma createCarWashRecord_carsCounted:
  assumes "createCarWashRecord st branchId req now newId = (Inr created, st')"
  shows "carsCounted (dailySummaryTable st') w d b = carsCounted (dailySummaryTable st) w d b"
  using persistCarWash_carsCounted [OF createCarWashRecord_InrD(3) [OF assms]] .

section \<open>What the summaries report\<close>


























end
